theory Spec2Isabelle
  imports Complex_Main
begin

section \<open>Python values\<close>

text \<open>
  A Python \<open>str\<close> is a sequence of Unicode code points: \<open>len\<close> and slicing count code
  points, and the program's literals hold code points above 255 (the en dash 8211 and
  the em dash 8212). A string is therefore a list of code points, each the integer
  \<open>ord\<close> gives. \<open>ustr\<close> embeds an ASCII literal.
\<close>

type_synonym pystr = "int list"

definition ustr :: "string \<Rightarrow> pystr" where
  "ustr s = map of_char s"

text \<open>
  A Python \<open>float\<close> by its exact value: every finite double is a rational. The
  negative zero, the infinities and NaN are values of their own.
\<close>

datatype pyfloat = Finite rat | NegZero | PosInf | NegInf | NaN

text \<open>
  What \<open>r.json()\<close> returns: \<open>None\<close>, \<open>bool\<close>, \<open>int\<close>, \<open>float\<close>, \<open>str\<close>, \<open>list\<close> and
  \<open>dict\<close> with string keys (an association list, in insertion order).
\<close>

datatype json =
    JNull
  | JBool bool
  | JInt int
  | JFloat pyfloat
  | JStr pystr
  | JList "json list"
  | JDict "(pystr \<times> json) list"

text \<open>
  An exception is its class and the text \<open>str(e)\<close>. All classes listed derive from
  \<open>Exception\<close>, so \<open>except Exception\<close> catches each of them.
\<close>

datatype exn_class =
    RequestException
  | TypeError
  | AttributeError
  | KeyError
  | IndexError
  | ValueError
  | OverflowError

datatype py_exn = PyExn exn_class pystr

fun exn_str :: "py_exn \<Rightarrow> pystr" where
  "exn_str (PyExn c msg) = msg"

text \<open>A call that may raise, followed by the rest of the block.\<close>

definition then_do :: "py_exn + 'a \<Rightarrow> ('a \<Rightarrow> py_exn + 'b) \<Rightarrow> py_exn + 'b" where
  "then_do m f = (case m of Inl e \<Rightarrow> Inl e | Inr x \<Rightarrow> f x)"

subsection \<open>Strings\<close>

text \<open>The code points \<open>str.strip()\<close> removes (those \<open>str.isspace\<close> accepts).\<close>

definition py_isspace :: "int \<Rightarrow> bool" where
  "py_isspace c =
     (c \<in> set [9, 10, 11, 12, 13, 28, 29, 30, 31, 32, 133, 160, 5760,
                8232, 8233, 8239, 8287, 12288]
      \<or> (8192 \<le> c \<and> c \<le> 8202))"

text \<open>\<open>s.strip()\<close>\<close>

definition py_strip :: "pystr \<Rightarrow> pystr" where
  "py_strip s = rev (dropWhile py_isspace (rev (dropWhile py_isspace s)))"

text \<open>\<open>sep.join(parts)\<close>\<close>

fun py_join :: "pystr \<Rightarrow> pystr list \<Rightarrow> pystr" where
  "py_join sep [] = []"
| "py_join sep [x] = x"
| "py_join sep (x # y # ys) = x @ sep @ py_join sep (y # ys)"

text \<open>\<open>k in s\<close> for two strings: \<open>k\<close> occurs in \<open>s\<close> as a contiguous run.\<close>

fun is_substr :: "pystr \<Rightarrow> pystr \<Rightarrow> bool" where
  "is_substr k [] = (k = [])"
| "is_substr k (c # t) = (take (length k) (c # t) = k \<or> is_substr k t)"

text \<open>\<open>str(n)\<close> for an \<open>int\<close>: decimal digits, with a minus sign when negative.\<close>

function digits :: "int \<Rightarrow> pystr" where
  "digits n = (if n < 10 then [48 + n] else digits (n div 10) @ [48 + n mod 10])"
  by pat_completeness auto
termination
  by (relation "measure nat") auto

definition str_int :: "int \<Rightarrow> pystr" where
  "str_int i = (if i < 0 then 45 # digits (- i) else digits i)"

subsection \<open>The world outside the program\<close>

text \<open>A call of \<open>requests.get\<close> or \<open>requests.post\<close>, with what the program passes.
  Dates are proleptic Gregorian ordinals (\<open>date.toordinal\<close>).\<close>

datatype http_call =
    GeocodeGET pystr
  | ForecastGET json json int int
  | HfPOST pystr pystr pystr

text \<open>The calls that go to the summarization endpoint.\<close>

fun is_hf_call :: "http_call \<Rightarrow> bool" where
  "is_hf_call (HfPOST url token inputs) = True"
| "is_hf_call c = False"

text \<open>
  Everything the program reads from outside itself. An endpoint field gives the
  outcome of the request, \<open>raise_for_status()\<close> and \<open>r.json()\<close> together: the
  exception raised or the decoded body. The library functions whose results depend
  on the interpreter and the locale (\<open>repr\<close> of a float and of a string, \<open>int\<close> of a
  string, \<open>datetime.fromisoformat(d).strftime("%a %d %b")\<close>) are fields as well.
\<close>

record runtime =
  environ_HF_API_TOKEN :: "pystr option"
  today :: int
  geocode_endpoint :: "pystr \<Rightarrow> py_exn + json"
  forecast_endpoint :: "json \<Rightarrow> json \<Rightarrow> int \<Rightarrow> int \<Rightarrow> py_exn + json"
  hf_endpoint :: "pystr \<Rightarrow> pystr \<Rightarrow> pystr \<Rightarrow> py_exn + json"
  repr_float :: "pyfloat \<Rightarrow> pystr"
  repr_str :: "pystr \<Rightarrow> pystr"
  int_of_str :: "pystr \<Rightarrow> py_exn + int"
  fromisoformat_strftime :: "pystr \<Rightarrow> py_exn + pystr"

subsection \<open>Built-in operations on decoded JSON\<close>

fun py_type_name :: "json \<Rightarrow> string" where
  "py_type_name JNull = ''NoneType''"
| "py_type_name (JBool b) = ''bool''"
| "py_type_name (JInt n) = ''int''"
| "py_type_name (JFloat f) = ''float''"
| "py_type_name (JStr s) = ''str''"
| "py_type_name (JList xs) = ''list''"
| "py_type_name (JDict kvs) = ''dict''"

text \<open>Truth value of an object, as \<open>if v\<close> and \<open>not v\<close> read it.\<close>

fun py_truthy :: "json \<Rightarrow> bool" where
  "py_truthy JNull = False"
| "py_truthy (JBool b) = b"
| "py_truthy (JInt n) = (n \<noteq> 0)"
| "py_truthy (JFloat f) = (f \<noteq> Finite 0 \<and> f \<noteq> NegZero)"
| "py_truthy (JStr s) = (s \<noteq> [])"
| "py_truthy (JList xs) = (xs \<noteq> [])"
| "py_truthy (JDict kvs) = (kvs \<noteq> [])"

text \<open>\<open>repr(v)\<close>\<close>

fun py_repr :: "runtime \<Rightarrow> json \<Rightarrow> pystr" where
  "py_repr rt JNull = ustr ''None''"
| "py_repr rt (JBool b) = (if b then ustr ''True'' else ustr ''False'')"
| "py_repr rt (JInt n) = str_int n"
| "py_repr rt (JFloat f) = repr_float rt f"
| "py_repr rt (JStr s) = repr_str rt s"
| "py_repr rt (JList xs) =
     ustr ''['' @ py_join (ustr '', '') (map (py_repr rt) xs) @ ustr '']''"
| "py_repr rt (JDict kvs) =
     ustr ''{'' @
     py_join (ustr '', '')
       (map (\<lambda>kv. repr_str rt (fst kv) @ ustr '': '' @ py_repr rt (snd kv)) kvs) @
     ustr ''}''"

text \<open>\<open>str(v)\<close>, which is also what an f-string field \<open>{v}\<close> inserts.\<close>

definition py_str :: "runtime \<Rightarrow> json \<Rightarrow> pystr" where
  "py_str rt v = (case v of JStr s \<Rightarrow> s | _ \<Rightarrow> py_repr rt v)"

text \<open>\<open>int(v)\<close>: a float is cut at the decimal point.\<close>

fun py_int :: "runtime \<Rightarrow> json \<Rightarrow> py_exn + int" where
  "py_int rt (JInt n) = Inr n"
| "py_int rt (JBool b) = Inr (if b then 1 else 0)"
| "py_int rt (JFloat (Finite r)) = Inr (if 0 \<le> r then \<lfloor>r\<rfloor> else \<lceil>r\<rceil>)"
| "py_int rt (JFloat NegZero) = Inr 0"
| "py_int rt (JFloat PosInf) =
     Inl (PyExn OverflowError (ustr ''cannot convert float infinity to integer''))"
| "py_int rt (JFloat NegInf) =
     Inl (PyExn OverflowError (ustr ''cannot convert float infinity to integer''))"
| "py_int rt (JFloat NaN) =
     Inl (PyExn ValueError (ustr ''cannot convert float NaN to integer''))"
| "py_int rt (JStr s) = int_of_str rt s"
| "py_int rt v =
     Inl (PyExn TypeError
       (ustr ''int() argument must be a string, a bytes-like object or a real number, not ''
        @ [39] @ ustr (py_type_name v) @ [39]))"

text \<open>The exact value of a JSON number (an \<open>int\<close> or a finite \<open>float\<close>).\<close>

fun number_value :: "json \<Rightarrow> rat option" where
  "number_value (JInt n) = Some (of_int n)"
| "number_value (JFloat (Finite r)) = Some r"
| "number_value (JFloat NegZero) = Some 0"
| "number_value v = None"

text \<open>\<open>k in v\<close> for a string \<open>k\<close>.\<close>

fun py_contains_str :: "json \<Rightarrow> pystr \<Rightarrow> py_exn + bool" where
  "py_contains_str (JDict kvs) k = Inr (k \<in> set (map fst kvs))"
| "py_contains_str (JList xs) k = Inr (JStr k \<in> set xs)"
| "py_contains_str (JStr s) k = Inr (is_substr k s)"
| "py_contains_str v k =
     Inl (PyExn TypeError
       (ustr ''argument of type '' @ [39] @ ustr (py_type_name v) @ [39]
        @ ustr '' is not iterable''))"

text \<open>\<open>v[k]\<close> for a string \<open>k\<close>.\<close>

fun py_getitem_str :: "runtime \<Rightarrow> json \<Rightarrow> pystr \<Rightarrow> py_exn + json" where
  "py_getitem_str rt (JDict kvs) k =
     (case map_of kvs k of
        Some x \<Rightarrow> Inr x
      | None \<Rightarrow> Inl (PyExn KeyError (repr_str rt k)))"
| "py_getitem_str rt (JStr s) k =
     Inl (PyExn TypeError (ustr ''string indices must be integers, not '' @ [39]
       @ ustr ''str'' @ [39]))"
| "py_getitem_str rt (JList xs) k =
     Inl (PyExn TypeError (ustr ''list indices must be integers or slices, not str''))"
| "py_getitem_str rt v k =
     Inl (PyExn TypeError
       ([39] @ ustr (py_type_name v) @ [39] @ ustr '' object is not subscriptable''))"

text \<open>\<open>v[0]\<close>\<close>

fun py_getitem_0 :: "json \<Rightarrow> py_exn + json" where
  "py_getitem_0 (JList []) = Inl (PyExn IndexError (ustr ''list index out of range''))"
| "py_getitem_0 (JList (x # xs)) = Inr x"
| "py_getitem_0 (JStr []) = Inl (PyExn IndexError (ustr ''string index out of range''))"
| "py_getitem_0 (JStr (c # s)) = Inr (JStr [c])"
| "py_getitem_0 (JDict kvs) = Inl (PyExn KeyError (ustr ''0''))"
| "py_getitem_0 v =
     Inl (PyExn TypeError
       ([39] @ ustr (py_type_name v) @ [39] @ ustr '' object is not subscriptable''))"

text \<open>\<open>v.get(k, default)\<close>: only a \<open>dict\<close> has the method.\<close>

fun py_get :: "json \<Rightarrow> pystr \<Rightarrow> json \<Rightarrow> py_exn + json" where
  "py_get (JDict kvs) k dflt = Inr (case map_of kvs k of Some x \<Rightarrow> x | None \<Rightarrow> dflt)"
| "py_get v k dflt =
     Inl (PyExn AttributeError
       ([39] @ ustr (py_type_name v) @ [39] @ ustr '' object has no attribute ''
        @ [39] @ ustr ''get'' @ [39]))"

text \<open>\<open>v.strip()\<close>: only a \<open>str\<close> has the method.\<close>

fun py_strip_method :: "json \<Rightarrow> py_exn + pystr" where
  "py_strip_method (JStr s) = Inr (py_strip s)"
| "py_strip_method v =
     Inl (PyExn AttributeError
       ([39] @ ustr (py_type_name v) @ [39] @ ustr '' object has no attribute ''
        @ [39] @ ustr ''strip'' @ [39]))"

text \<open>\<open>iter(v)\<close>, as \<open>zip\<close> takes each argument: a list gives its items, a string its
  characters, a dict its keys.\<close>

fun py_iter :: "json \<Rightarrow> py_exn + json list" where
  "py_iter (JList xs) = Inr xs"
| "py_iter (JStr s) = Inr (map (\<lambda>c. JStr [c]) s)"
| "py_iter (JDict kvs) = Inr (map (\<lambda>kv. JStr (fst kv)) kvs)"
| "py_iter v =
     Inl (PyExn TypeError
       ([39] @ ustr (py_type_name v) @ [39] @ ustr '' object is not iterable''))"

section \<open>The weather code table\<close>


text \<open>\<open>v == k\<close> for an \<open>int\<close> literal \<open>k\<close>: numbers compare by value, \<open>True\<close> is 1 and
  \<open>False\<close> is 0, anything else is unequal.\<close>

fun py_eq_int :: "json \<Rightarrow> int \<Rightarrow> bool" where
  "py_eq_int (JInt n) k = (n = k)"
| "py_eq_int (JBool b) k = ((if b then 1 else 0) = k)"
| "py_eq_int (JFloat (Finite r)) k = (r = of_int k)"
| "py_eq_int (JFloat NegZero) k = (k = 0)"
| "py_eq_int v k = False"

text \<open>\<open>code in (k1, k2, ...)\<close>\<close>

definition py_in_tuple :: "json \<Rightarrow> int list \<Rightarrow> bool" where
  "py_in_tuple v ks = list_ex (\<lambda>k. py_eq_int v k) ks"

text \<open>\<open>_weathercode_to_text\<close>\<close>

definition weathercode_to_text :: "json \<Rightarrow> pystr" where
  "weathercode_to_text code =
     (if py_in_tuple code [0] then ustr ''Clear sky''
      else if py_in_tuple code [1, 2, 3] then ustr ''Mainly clear to partly cloudy''
      else if py_in_tuple code [45, 48] then ustr ''Fog or depositing rime fog''
      else if py_in_tuple code [51, 53, 55] then ustr ''Drizzle''
      else if py_in_tuple code [61, 63, 65] then ustr ''Rain''
      else if py_in_tuple code [71, 73, 75] then ustr ''Snow''
      else if py_in_tuple code [95, 96, 99] then ustr ''Thunderstorms''
      else ustr ''Mixed/unknown weather'')"

text \<open>The table as the specification writes it: buckets in order, the first bucket
  holding the code gives the phrase, and a code in no bucket gives the default.\<close>

definition spec_weather_table :: "(int list \<times> string) list" where
  "spec_weather_table =
     [([0], ''Clear sky''),
      ([1, 2, 3], ''Mainly clear to partly cloudy''),
      ([45, 48], ''Fog or depositing rime fog''),
      ([51, 53, 55], ''Drizzle''),
      ([61, 63, 65], ''Rain''),
      ([71, 73, 75], ''Snow''),
      ([95, 96, 99], ''Thunderstorms'')]"

fun spec_first_match :: "(int list \<times> string) list \<Rightarrow> int \<Rightarrow> string" where
  "spec_first_match [] c = ''Mixed/unknown weather''"
| "spec_first_match ((ks, phrase) # rest) c =
     (if c \<in> set ks then phrase else spec_first_match rest c)"

section \<open>The forecast formatter\<close>

text \<open>The loop body of \<open>format_forecast_text\<close>: one line for one day. The date is
  parsed and formatted first, then the precipitation note and the weather phrase are
  built, then \<open>int(lo)\<close> and \<open>int(hi)\<close> are taken inside the f-string. Code point 176
  is the degree sign and 8211 the en dash.\<close>

definition render_date :: "runtime \<Rightarrow> json \<Rightarrow> py_exn + pystr" where
  "render_date rt d =
     (case d of
        JStr s \<Rightarrow> fromisoformat_strftime rt s
      | _ \<Rightarrow> Inl (PyExn TypeError (ustr ''fromisoformat: argument must be str'')))"

definition precip_note :: "runtime \<Rightarrow> json \<Rightarrow> pystr" where
  "precip_note rt p =
     (if p = JNull \<or> py_eq_int p 0 then ustr ''no significant rain''
      else py_str rt p @ ustr '' mm precipitation expected'')"

definition day_line :: "pystr \<Rightarrow> pystr \<Rightarrow> int \<Rightarrow> int \<Rightarrow> pystr \<Rightarrow> pystr" where
  "day_line date wc_note ilo ihi pnote =
     date @ ustr '': '' @ wc_note @ ustr ''. Temp '' @ str_int ilo @ [176] @ ustr ''C''
     @ [8211] @ str_int ihi @ [176] @ ustr ''C, '' @ pnote @ ustr ''.''"

definition format_day ::
  "runtime \<Rightarrow> json \<Rightarrow> json \<Rightarrow> json \<Rightarrow> json \<Rightarrow> json \<Rightarrow> py_exn + pystr" where
  "format_day rt d hi lo p wc =
     then_do (render_date rt d) (\<lambda>date.
       then_do (py_int rt lo) (\<lambda>ilo.
         then_do (py_int rt hi) (\<lambda>ihi.
           Inr (day_line date (weathercode_to_text wc) ilo ihi (precip_note rt p)))))"

text \<open>The \<open>for\<close> loop over the zipped series: lines are appended in order and the first
  exception ends the function.\<close>

fun format_days ::
  "runtime \<Rightarrow> (json \<times> json \<times> json \<times> json \<times> json) list \<Rightarrow> py_exn + pystr list" where
  "format_days rt [] = Inr []"
| "format_days rt ((d, hi, lo, p, wc) # rest) =
     then_do (format_day rt d hi lo p wc) (\<lambda>line.
       then_do (format_days rt rest) (\<lambda>ls. Inr (line # ls)))"

text \<open>The five daily series as \<open>format_forecast_text\<close> reads them, each with the
  default \<open>[]\<close>.\<close>

definition daily_series ::
  "json \<Rightarrow> py_exn + (json \<times> json \<times> json \<times> json \<times> json)" where
  "daily_series forecast_json =
     then_do (py_get forecast_json (ustr ''daily'') (JDict [])) (\<lambda>daily.
       then_do (py_get daily (ustr ''time'') (JList [])) (\<lambda>dates.
         then_do (py_get daily (ustr ''temperature_2m_max'') (JList [])) (\<lambda>tmax.
           then_do (py_get daily (ustr ''temperature_2m_min'') (JList [])) (\<lambda>tmin.
             then_do (py_get daily (ustr ''precipitation_sum'') (JList [])) (\<lambda>precip.
               then_do (py_get daily (ustr ''weathercode'') (JList [])) (\<lambda>weathercodes.
                 Inr (dates, tmax, tmin, precip, weathercodes)))))))"

text \<open>\<open>zip(dates, tmax, tmin, precip, weathercodes)\<close>: each argument is iterated, and
  the tuples stop with the shortest.\<close>

definition zip_series ::
  "json \<Rightarrow> json \<Rightarrow> json \<Rightarrow> json \<Rightarrow> json \<Rightarrow>
   py_exn + (json \<times> json \<times> json \<times> json \<times> json) list" where
  "zip_series dates tmax tmin precip weathercodes =
     then_do (py_iter dates) (\<lambda>ds.
       then_do (py_iter tmax) (\<lambda>his.
         then_do (py_iter tmin) (\<lambda>los.
           then_do (py_iter precip) (\<lambda>ps.
             then_do (py_iter weathercodes) (\<lambda>wcs.
               Inr (zip ds (zip his (zip los (zip ps wcs)))))))))"

text \<open>The list \<open>lines\<close> at the \<open>return\<close>: the header (ending in a line feed, code point
  10) and the day lines.\<close>

definition forecast_lines :: "runtime \<Rightarrow> pystr \<Rightarrow> json \<Rightarrow> py_exn + pystr list" where
  "forecast_lines rt place_name forecast_json =
     then_do (daily_series forecast_json) (\<lambda>(dates, tmax, tmin, precip, weathercodes).
       then_do (zip_series dates tmax tmin precip weathercodes) (\<lambda>days.
         then_do (format_days rt days) (\<lambda>ls.
           Inr ((ustr ''Weather forecast for '' @ place_name @ ustr '':'' @ [10]) # ls))))"

definition format_forecast_text :: "runtime \<Rightarrow> pystr \<Rightarrow> json \<Rightarrow> py_exn + pystr" where
  "format_forecast_text rt place_name forecast_json =
     then_do (forecast_lines rt place_name forecast_json) (\<lambda>lines.
       Inr (py_join [10] lines))"

section \<open>The summarizer\<close>

definition HF_INFERENCE_URL :: pystr where
  "HF_INFERENCE_URL = ustr ''https://api-inference.huggingface.co/models/''"

definition HF_MODEL :: pystr where
  "HF_MODEL = ustr ''google/flan-t5-small''"

definition generated_text :: pystr where
  "generated_text = ustr ''generated_text''"

text \<open>The last \<open>return\<close> of the \<open>try\<close> block.\<close>

definition unexpected_output :: "runtime \<Rightarrow> json \<Rightarrow> pystr" where
  "unexpected_output rt data =
     ustr ''(Summarization produced unexpected output) '' @ take 1000 (py_str rt data)"

text \<open>The three tests on the decoded response and the final \<open>return\<close> of the \<open>try\<close>
  block, in the order of the source.\<close>

definition hf_parse :: "runtime \<Rightarrow> json \<Rightarrow> py_exn + pystr" where
  "hf_parse rt data =
     then_do
       (case data of
          JList xs \<Rightarrow>
            if xs \<noteq> [] then then_do (py_getitem_0 data) (\<lambda>d0. py_contains_str d0 generated_text)
            else Inr False
        | _ \<Rightarrow> Inr False)
       (\<lambda>is_list_shape.
          if is_list_shape then
            then_do (py_getitem_0 data) (\<lambda>d0.
              then_do (py_getitem_str rt d0 generated_text) py_strip_method)
          else
            then_do
              (case data of
                 JDict kvs \<Rightarrow> py_contains_str data generated_text
               | _ \<Rightarrow> Inr False)
              (\<lambda>is_dict_shape.
                 if is_dict_shape then
                   then_do (py_getitem_str rt data generated_text) py_strip_method
                 else
                   (case data of
                      JStr s \<Rightarrow> Inr (py_strip s)
                    | _ \<Rightarrow> Inr (unexpected_output rt data))))"

text \<open>\<open>hf_token or os.environ.get("HF_API_TOKEN")\<close>, and \<open>not token\<close>.\<close>

definition token_or_environ :: "runtime \<Rightarrow> pystr option \<Rightarrow> pystr option" where
  "token_or_environ rt hf_token =
     (case hf_token of
        None \<Rightarrow> environ_HF_API_TOKEN rt
      | Some t \<Rightarrow> if t \<noteq> [] then Some t else environ_HF_API_TOKEN rt)"

fun token_truthy :: "pystr option \<Rightarrow> bool" where
  "token_truthy None = False"
| "token_truthy (Some t) = (t \<noteq> [])"

definition hf_prompt :: "pystr \<Rightarrow> pystr" where
  "hf_prompt text =
     ustr ''Summarize the following weather report in a short, user-friendly paragraph:''
     @ [10, 10] @ text"

definition hf_skipped :: "pystr \<Rightarrow> pystr" where
  "hf_skipped text =
     ustr ''(Hugging Face token not provided; summarization skipped)'' @ [10, 10]
     @ take 2000 text"

definition hf_failed :: "py_exn \<Rightarrow> pystr \<Rightarrow> pystr" where
  "hf_failed e text =
     ustr ''(Hugging Face summarization failed: '' @ exn_str e @ ustr '')'' @ [10, 10]
     @ take 2000 text"

text \<open>\<open>hf_summarize\<close>: the result (a raise past the function would be \<open>Inl\<close>) and the
  HTTP calls made. The parameter \<open>max_length\<close> of the source is never read and is left
  out.\<close>

definition hf_summarize ::
  "runtime \<Rightarrow> pystr \<Rightarrow> pystr \<Rightarrow> pystr option \<Rightarrow> (py_exn + pystr) \<times> http_call list" where
  "hf_summarize rt text model hf_token =
     (case token_or_environ rt hf_token of
        None \<Rightarrow> (Inr (hf_skipped text), [])
      | Some token \<Rightarrow>
          if token = [] then (Inr (hf_skipped text), [])
          else
            (let url = HF_INFERENCE_URL @ model;
                 inputs = hf_prompt text
             in (case then_do (hf_endpoint rt url token inputs) (hf_parse rt) of
                   Inr s \<Rightarrow> Inr s
                 | Inl e \<Rightarrow> Inr (hf_failed e text),
                 [HfPOST url token inputs])))"

section \<open>Geocoding and forecast fetching\<close>

definition geocode_place :: "runtime \<Rightarrow> pystr \<Rightarrow> (py_exn + json) \<times> http_call list" where
  "geocode_place rt place =
     (then_do (geocode_endpoint rt place) (\<lambda>data.
        then_do (py_get data (ustr ''results'') JNull) (\<lambda>results.
          if py_truthy results then
            then_do (py_getitem_str rt data (ustr ''results'')) py_getitem_0
          else Inr JNull)),
      [GeocodeGET place])"

text \<open>\<open>fetch_open_meteo\<close>: \<open>timedelta(days=days-1)\<close> raises \<open>OverflowError\<close> when the
  day count does not fit a C \<open>int\<close> or exceeds 999999999 in magnitude, and the date
  addition raises it when the end date leaves the years 1 to 9999 (ordinals 1 to
  3652059); both happen before any request is made.\<close>

definition fetch_open_meteo ::
  "runtime \<Rightarrow> json \<Rightarrow> json \<Rightarrow> int \<Rightarrow> (py_exn + json) \<times> http_call list" where
  "fetch_open_meteo rt lat lon days =
     (let start_date = today rt in
      if days - 1 < - 2147483648 \<or> 2147483647 < days - 1 then
        (Inl (PyExn OverflowError (ustr ''Python int too large to convert to C int'')), [])
      else if \<bar>days - 1\<bar> > 999999999 then
        (Inl (PyExn OverflowError
           (ustr ''days='' @ str_int (days - 1) @ ustr ''; must have magnitude <= 999999999'')),
         [])
      else
        (let end_date = start_date + (days - 1) in
         if end_date < 1 \<or> 3652059 < end_date then
           (Inl (PyExn OverflowError (ustr ''date value out of range'')), [])
         else
           (forecast_endpoint rt lat lon start_date end_date,
            [ForecastGET lat lon start_date end_date])))"

section \<open>The orchestrator\<close>

definition guidance_message :: pystr where
  "guidance_message =
     ustr ''Please enter a location (e.g., '' @ [39] @ ustr ''Rahim Yar Khan, Pakistan''
     @ [39] @ ustr '').''"

text \<open>The four \<open>geo.get\<close> calls after the geocoding block (outside any \<open>try\<close>).\<close>

definition geo_fields :: "json \<Rightarrow> py_exn + (json \<times> json \<times> json \<times> json)" where
  "geo_fields geo =
     then_do (py_get geo (ustr ''name'') JNull) (\<lambda>n.
       then_do (py_get geo (ustr ''country'') JNull) (\<lambda>c.
         then_do (py_get geo (ustr ''latitude'') JNull) (\<lambda>lat.
           then_do (py_get geo (ustr ''longitude'') JNull) (\<lambda>lon.
             Inr (n, c, lat, lon)))))"

text \<open>Step 4 of the source: the three branches on \<open>use_hf\<close> and the token. Code point
  8212 is the em dash.\<close>

definition summary_step ::
  "runtime \<Rightarrow> bool \<Rightarrow> pystr \<Rightarrow> (py_exn + pystr) \<times> http_call list" where
  "summary_step rt use_hf raw_text_summary =
     (let hf_token = environ_HF_API_TOKEN rt in
      if use_hf \<and> token_truthy hf_token then
        hf_summarize rt raw_text_summary HF_MODEL hf_token
      else if use_hf \<and> \<not> token_truthy hf_token then
        (Inr (ustr ''(HF token not set '' @ [8212]
              @ ustr '' set HF_API_TOKEN to enable model summarization)'' @ [10, 10]
              @ raw_text_summary), [])
      else (Inr raw_text_summary, []))"

text \<open>\<open>get_forecast_for_place\<close>: the returned pair, or the exception that leaves the
  function, and the HTTP calls made. \<open>days\<close> is an \<open>int\<close>, so \<open>int(days)\<close> is \<open>days\<close>.\<close>

definition get_forecast_for_place ::
  "runtime \<Rightarrow> pystr \<Rightarrow> int \<Rightarrow> bool \<Rightarrow> (py_exn + pystr \<times> json) \<times> http_call list" where
  "get_forecast_for_place rt place0 days use_hf =
     (let place = py_strip place0 in
      if place = [] then (Inr (guidance_message, JDict []), [])
      else
        (case geocode_place rt place of
           (Inl e, c1) \<Rightarrow>
             (Inr (ustr ''Error during geocoding: '' @ exn_str e, JDict []), c1)
         | (Inr geo, c1) \<Rightarrow>
             if \<not> py_truthy geo then
               (Inr (ustr ''Location not found: '' @ place, JDict []), c1)
             else
               (case geo_fields geo of
                  Inl e \<Rightarrow> (Inl e, c1)
                | Inr (n, c, lat, lon) \<Rightarrow>
                    (let name = py_str rt n @ ustr '', '' @ py_str rt c in
                     case fetch_open_meteo rt lat lon days of
                       (Inl e, c2) \<Rightarrow>
                         (Inr (ustr ''Error fetching forecast for '' @ name @ ustr '': ''
                               @ exn_str e, JDict []),
                          c1 @ c2)
                     | (Inr forecast, c2) \<Rightarrow>
                         (case format_forecast_text rt name forecast of
                            Inl e \<Rightarrow> (Inl e, c1 @ c2)
                          | Inr raw_text_summary \<Rightarrow>
                              (case summary_step rt use_hf raw_text_summary of
                                 (Inl e, c3) \<Rightarrow> (Inl e, c1 @ c2 @ c3)
                               | (Inr summary, c3) \<Rightarrow>
                                   (Inr (summary, forecast), c1 @ c2 @ c3)))))))"

section \<open>A concrete run\<close>

text \<open>One environment on which the definitions are evaluated: a geocoder that knows
  Lahore, a forecast with five dates but three maximum temperatures, no token in the
  environment, and a summarization endpoint that answers with an empty
  \<open>generated_text\<close>.\<close>

definition example_geo :: json where
  "example_geo =
     JDict [(ustr ''name'', JStr (ustr ''Lahore'')),
            (ustr ''country'', JStr (ustr ''Pakistan'')),
            (ustr ''latitude'', JFloat (Finite (63 / 2))),
            (ustr ''longitude'', JFloat (Finite (149 / 2)))]"

definition example_geocode :: json where
  "example_geocode = JDict [(ustr ''results'', JList [example_geo])]"

definition example_forecast :: json where
  "example_forecast =
     JDict [(ustr ''daily'',
       JDict [(ustr ''time'',
                 JList [JStr (ustr ''2024-01-01''), JStr (ustr ''2024-01-02''),
                        JStr (ustr ''2024-01-03''), JStr (ustr ''2024-01-04''),
                        JStr (ustr ''2024-01-05'')]),
              (ustr ''temperature_2m_max'',
                 JList [JFloat (Finite (219 / 10)), JInt 18, JFloat (Finite (1 / 2))]),
              (ustr ''temperature_2m_min'',
                 JList [JFloat (Finite (73 / 10)), JFloat (Finite (- (1 / 2))),
                        JFloat (Finite (- (17 / 10))), JInt 3, JInt 4]),
              (ustr ''precipitation_sum'',
                 JList [JInt 0, JFloat (Finite (5 / 2)), JNull, JInt 1, JInt 2]),
              (ustr ''weathercode'',
                 JList [JInt 0, JInt 61, JInt 200, JInt 3, JInt 95])])]"

definition example_dates :: "pystr \<Rightarrow> py_exn + pystr" where
  "example_dates s =
     (if s = ustr ''2024-01-01'' then Inr (ustr ''Mon 01 Jan'')
      else if s = ustr ''2024-01-02'' then Inr (ustr ''Tue 02 Jan'')
      else if s = ustr ''2024-01-03'' then Inr (ustr ''Wed 03 Jan'')
      else if s = ustr ''2024-01-04'' then Inr (ustr ''Thu 04 Jan'')
      else if s = ustr ''2024-01-05'' then Inr (ustr ''Fri 05 Jan'')
      else Inl (PyExn ValueError (ustr ''Invalid isoformat string'')))"

definition example_runtime :: runtime where
  "example_runtime =
     \<lparr> environ_HF_API_TOKEN = None,
       today = 738886,
       geocode_endpoint = (\<lambda>place. Inr example_geocode),
       forecast_endpoint = (\<lambda>lat lon start_date end_date. Inr example_forecast),
       hf_endpoint = (\<lambda>url token inputs. Inr (JDict [(generated_text, JStr [])])),
       repr_float = (\<lambda>f. if f = Finite (5 / 2) then ustr ''2.5'' else ustr ''0.0''),
       repr_str = (\<lambda>s. [39] @ s @ [39]),
       int_of_str = (\<lambda>s. Inl (PyExn ValueError (ustr ''invalid literal for int()''))),
       fromisoformat_strftime = example_dates \<rparr>"

definition example_runtime_with_token :: runtime where
  "example_runtime_with_token =
     example_runtime \<lparr> environ_HF_API_TOKEN := Some (ustr ''hf_example'') \<rparr>"

text \<open>The same environment with a summarization endpoint that times out.\<close>

definition timeout_runtime :: runtime where
  "timeout_runtime =
     example_runtime_with_token
       \<lparr> hf_endpoint := (\<lambda>url token inputs.
            Inl (PyExn RequestException (ustr ''Read timed out.''))) \<rparr>"


section \<open>Properties\<close>

subsection \<open>Auxiliary facts\<close>


lemma py_strip_blank:
  assumes "list_all py_isspace s"
  shows "py_strip s = []"
proof -
  have d: "dropWhile py_isspace s = []"
    using assms by (simp add: list_all_iff)
  show ?thesis
    unfolding py_strip_def d by simp
qed











text \<open>\<open>int\<close> of a number keeps the sign and drops the fraction.\<close>

lemma trunc_nonneg:
  fixes r :: rat
  assumes "0 \<le> r"
  shows "\<bar>of_int \<lfloor>r\<rfloor>\<bar> \<le> \<bar>r\<bar> \<and> \<bar>r\<bar> < \<bar>of_int \<lfloor>r\<rfloor>\<bar> + 1 \<and> 0 \<le> of_int \<lfloor>r\<rfloor> * r"
proof -
  have f0: "0 \<le> \<lfloor>r\<rfloor>" using assms by simp
  then have a: "\<bar>of_int \<lfloor>r\<rfloor> :: rat\<bar> = of_int \<lfloor>r\<rfloor>" by simp
  have b: "\<bar>r\<bar> = r" using assms by simp
  have "(0::rat) \<le> of_int \<lfloor>r\<rfloor>" using f0 by simp
  then have c: "0 \<le> of_int \<lfloor>r\<rfloor> * r" using assms by (rule mult_nonneg_nonneg)
  show ?thesis unfolding a b using c by (simp add: floor_less_iff) linarith
qed

lemma trunc_neg:
  fixes r :: rat
  assumes "r < 0"
  shows "\<bar>of_int \<lceil>r\<rceil>\<bar> \<le> \<bar>r\<bar> \<and> \<bar>r\<bar> < \<bar>of_int \<lceil>r\<rceil>\<bar> + 1 \<and> 0 \<le> of_int \<lceil>r\<rceil> * r"
proof -
  have c0: "\<lceil>r\<rceil> \<le> 0" using assms by (simp add: ceiling_le_iff)
  then have c0': "(of_int \<lceil>r\<rceil> :: rat) \<le> 0" by simp
  then have a: "\<bar>of_int \<lceil>r\<rceil> :: rat\<bar> = - of_int \<lceil>r\<rceil>" by simp
  have b: "\<bar>r\<bar> = - r" using assms by simp
  have c: "0 \<le> of_int \<lceil>r\<rceil> * r"
    using c0' assms by (simp add: mult_nonpos_nonpos)
  have d: "r \<le> of_int \<lceil>r\<rceil>" and e: "of_int \<lceil>r\<rceil> - 1 < r"
    using ceiling_correct [of r] by simp_all
  show ?thesis unfolding a b using c d e by simp
qed

lemma py_int_number:
  assumes "number_value v = Some x"
  shows "\<exists>i. py_int rt v = Inr i
           \<and> \<bar>of_int i\<bar> \<le> \<bar>x\<bar> \<and> \<bar>x\<bar> < \<bar>of_int i\<bar> + 1 \<and> 0 \<le> of_int i * x"
proof (cases v)
  case (JInt n)
  with assms show ?thesis by auto
next
  case (JFloat f)
  show ?thesis
  proof (cases f)
    case (Finite r)
    with JFloat assms have x: "x = r" by simp
    show ?thesis
    proof (cases "0 \<le> r")
      case True
      with trunc_nonneg [OF True] JFloat Finite x show ?thesis by simp
    next
      case False
      then have "r < 0" by simp
      from trunc_neg [OF this] False JFloat Finite x show ?thesis by simp
    qed
  next
    case NegZero
    with JFloat assms show ?thesis by auto
  qed (use JFloat assms in simp_all)
qed (use assms in simp_all)

text \<open>The loop renders every tuple it is given, in order.\<close>

lemma format_days_Inr:
  "format_days rt days = Inr ls \<Longrightarrow>
   length ls = length days
   \<and> (\<forall>i<length days.
        (case days ! i of (d, hi, lo, p, wc) \<Rightarrow> format_day rt d hi lo p wc) = Inr (ls ! i))"
proof (induction days arbitrary: ls)
  case Nil
  then show ?case by simp
next
  case (Cons day rest)
  obtain d hi lo p wc where day: "day = (d, hi, lo, p, wc)"
    by (cases day) auto
  from Cons.prems day obtain line ls' where
    line: "format_day rt d hi lo p wc = Inr line"
    and rest: "format_days rt rest = Inr ls'"
    and ls: "ls = line # ls'"
    by (auto simp: then_do_def split: sum.splits)
  from Cons.IH [OF rest] have
    len: "length ls' = length rest"
    and each: "\<And>i. i < length rest \<Longrightarrow>
      (case rest ! i of (d, hi, lo, p, wc) \<Rightarrow> format_day rt d hi lo p wc) = Inr (ls' ! i)"
    by auto
  show ?case
  proof (intro conjI allI impI)
    show "length ls = length (day # rest)"
      using ls len by simp
  next
    fix i assume "i < length (day # rest)"
    then show "(case (day # rest) ! i of (d, hi, lo, p, wc) \<Rightarrow> format_day rt d hi lo p wc)
                 = Inr (ls ! i)"
      using ls day line each by (cases i) simp_all
  qed
qed

text \<open>The HTTP calls of each stage, and the orchestrator after a successful fetch.\<close>

lemma geocode_calls: "snd (geocode_place rt place) = [GeocodeGET place]"
  by (simp add: geocode_place_def)

lemma fetch_calls: "\<not> list_ex is_hf_call (snd (fetch_open_meteo rt lat lon days))"
  by (simp add: fetch_open_meteo_def Let_def)

lemma summary_step_disabled: "summary_step rt False raw = (Inr raw, [])"
  by (simp add: summary_step_def)


lemma pipeline_success:
  assumes "py_strip place \<noteq> []"
      and "geocode_place rt (py_strip place) = (Inr geo, c1)"
      and "py_truthy geo"
      and "geo_fields geo = Inr (n, c, lat, lon)"
      and "fetch_open_meteo rt lat lon days = (Inr forecast, c2)"
  shows "get_forecast_for_place rt place days use_hf =
           (case format_forecast_text rt (py_str rt n @ ustr '', '' @ py_str rt c) forecast of
              Inl e \<Rightarrow> (Inl e, c1 @ c2)
            | Inr raw_text_summary \<Rightarrow>
                (case summary_step rt use_hf raw_text_summary of
                   (Inl e, c3) \<Rightarrow> (Inl e, c1 @ c2 @ c3)
                 | (Inr summary, c3) \<Rightarrow> (Inr (summary, forecast), c1 @ c2 @ c3)))"
  using assms by (simp add: get_forecast_for_place_def Let_def)






text \<open>The stages of the concrete run.\<close>

lemma example_place_nonempty: "py_strip (ustr '' Lahore, Pakistan '') \<noteq> []"
  by code_simp

lemma example_geocoding:
  "geocode_place example_runtime_with_token (py_strip (ustr '' Lahore, Pakistan ''))
     = (Inr example_geo, [GeocodeGET (ustr ''Lahore, Pakistan'')])"
  by code_simp

lemma example_geo_truthy: "py_truthy example_geo"
  by (simp add: example_geo_def)

lemma example_geo_fields:
  "geo_fields example_geo
     = Inr (JStr (ustr ''Lahore''), JStr (ustr ''Pakistan''),
            JFloat (Finite (63 / 2)), JFloat (Finite (149 / 2)))"
  by code_simp

lemma example_fetch:
  "fetch_open_meteo example_runtime_with_token (JFloat (Finite (63 / 2)))
       (JFloat (Finite (149 / 2))) 3
     = (Inr example_forecast,
        [ForecastGET (JFloat (Finite (63 / 2))) (JFloat (Finite (149 / 2))) 738886 738888])"
  by code_simp

lemma example_name:
  "py_str example_runtime_with_token (JStr (ustr ''Lahore'')) @ ustr '', ''
     @ py_str example_runtime_with_token (JStr (ustr ''Pakistan''))
   = ustr ''Lahore, Pakistan''"
  by code_simp

lemma example_format_returns:
  "\<not> isl (format_forecast_text example_runtime_with_token (ustr ''Lahore, Pakistan'')
            example_forecast)"
  by code_simp

subsection \<open>The summarizer never raises\<close>

text \<open>
  C1. For every input text, model identifier, credential and behaviour of the
  summarization endpoint, \<open>hf_summarize\<close> returns a string. When a credential is
  available and the request raises, or the decoded response makes the parsing raise,
  the string returned is \<open>(Hugging Face summarization failed: <message>)\<close>, two line
  feeds, and the first 2000 characters of the input text.
\<close>

theorem hf_never_raises_C1:
  "\<exists>s. fst (hf_summarize rt text model hf_token) = Inr s
     \<and> (\<forall>token e.
           token_or_environ rt hf_token = Some token \<and> token \<noteq> []
           \<and> (hf_endpoint rt (HF_INFERENCE_URL @ model) token (hf_prompt text) = Inl e
              \<or> (\<exists>data. hf_endpoint rt (HF_INFERENCE_URL @ model) token (hf_prompt text)
                            = Inr data
                         \<and> hf_parse rt data = Inl e))
           \<longrightarrow> s = ustr ''(Hugging Face summarization failed: '' @ exn_str e @ ustr '')''
                    @ [10, 10] @ take 2000 text)"
proof (cases "token_or_environ rt hf_token")
  case None
  then show ?thesis
    by (simp add: hf_summarize_def)
next
  case (Some token)
  show ?thesis
  proof (cases "token = []")
    case True
    with Some show ?thesis
      by (simp add: hf_summarize_def)
  next
    case False
    let ?r = "hf_endpoint rt (HF_INFERENCE_URL @ model) token (hf_prompt text)"
    show ?thesis
    proof (cases ?r)
      case (Inl e)
      with Some False show ?thesis
        by (simp add: hf_summarize_def then_do_def hf_failed_def)
    next
      case (Inr data)
      with Some False show ?thesis
        by (cases "hf_parse rt data")
           (simp_all add: hf_summarize_def then_do_def hf_failed_def)
    qed
  qed
qed

theorem hf_never_raises_C1_witness:
  "fst (hf_summarize timeout_runtime (ustr ''Sunny'') HF_MODEL None)
     = Inr (ustr ''(Hugging Face summarization failed: Read timed out.)'' @ [10, 10]
            @ ustr ''Sunny'')"
proof -
  have tok: "token_or_environ timeout_runtime None = Some (ustr ''hf_example'')"
    by (simp add: token_or_environ_def timeout_runtime_def example_runtime_with_token_def
          example_runtime_def)
  have ne: "ustr ''hf_example'' \<noteq> []"
    by (simp add: ustr_def)
  have ep: "hf_endpoint timeout_runtime (HF_INFERENCE_URL @ HF_MODEL) (ustr ''hf_example'')
              (hf_prompt (ustr ''Sunny''))
            = Inl (PyExn RequestException (ustr ''Read timed out.''))"
    by (simp add: timeout_runtime_def)
  have short: "take 2000 (ustr ''Sunny'') = ustr ''Sunny''"
    by (simp add: ustr_def)
  from hf_never_raises_C1 [of timeout_runtime "ustr ''Sunny''" HF_MODEL None]
  obtain s where s: "fst (hf_summarize timeout_runtime (ustr ''Sunny'') HF_MODEL None) = Inr s"
    and fb: "\<And>token e. token_or_environ timeout_runtime None = Some token \<Longrightarrow> token \<noteq> [] \<Longrightarrow>
               hf_endpoint timeout_runtime (HF_INFERENCE_URL @ HF_MODEL) token
                 (hf_prompt (ustr ''Sunny'')) = Inl e \<Longrightarrow>
               s = ustr ''(Hugging Face summarization failed: '' @ exn_str e @ ustr '')''
                   @ [10, 10] @ take 2000 (ustr ''Sunny'')"
    by blast
  have "s = ustr ''(Hugging Face summarization failed: ''
            @ exn_str (PyExn RequestException (ustr ''Read timed out.'')) @ ustr '')''
            @ [10, 10] @ take 2000 (ustr ''Sunny'')"
    by (rule fb [OF tok ne ep])
  with s short show ?thesis
    by (simp add: ustr_def)
qed

subsection \<open>Blank place input\<close>

text \<open>
  C2. For every place that is empty or holds only whitespace, and for every
  environment, day count and summarization flag, \<open>get_forecast_for_place\<close> returns the
  guidance message with the empty dict and makes no HTTP call.
\<close>

theorem blank_place_C2:
  assumes "list_all py_isspace place"
  shows "get_forecast_for_place rt place days use_hf = (Inr (guidance_message, JDict []), [])"
  using assms by (simp add: get_forecast_for_place_def py_strip_blank)

theorem blank_place_C2_witness:
  "list_all py_isspace [32, 9, 32]
   \<and> get_forecast_for_place example_runtime_with_token [32, 9, 32] 3 True
       = (Inr (guidance_message, JDict []), [])"
proof -
  have blank: "list_all py_isspace [32, 9, 32]"
    by (simp add: py_isspace_def)
  show ?thesis
    using blank blank_place_C2 [OF blank, of example_runtime_with_token 3 True] by simp
qed

subsection \<open>The weather code table\<close>

text \<open>
  C3. For every integer weather code the mapping returns the phrase of the first bucket
  of the fixed table that holds the code, and the default phrase
  \<open>Mixed/unknown weather\<close> for a code in no bucket, such as 200.
\<close>

theorem weathercode_table_C3:
  "weathercode_to_text (JInt c) = ustr (spec_first_match spec_weather_table c)
   \<and> weathercode_to_text (JInt 200) = ustr ''Mixed/unknown weather''"
  by (simp add: weathercode_to_text_def py_in_tuple_def spec_weather_table_def)

subsection \<open>The summarizer without a credential\<close>

text \<open>
  C5 (as amended). When neither the argument nor the environment gives a non-empty
  token, \<open>hf_summarize\<close> makes no HTTP call and returns the prefix
  \<open>(Hugging Face token not provided; summarization skipped)\<close>, two line feeds, and the
  first 2000 characters of the input text, unchanged.
\<close>

theorem hf_no_credential_C5:
  assumes "\<not> token_truthy (token_or_environ rt hf_token)"
  shows "hf_summarize rt text model hf_token =
           (Inr (ustr ''(Hugging Face token not provided; summarization skipped)''
                 @ [10, 10] @ take 2000 text), [])"
  using assms
  by (cases "token_or_environ rt hf_token") (simp_all add: hf_summarize_def hf_skipped_def)

theorem hf_no_credential_C5_witness:
  "\<not> token_truthy (token_or_environ example_runtime (Some []))
   \<and> hf_summarize example_runtime (ustr ''Sunny'') HF_MODEL (Some [])
       = (Inr (ustr ''(Hugging Face token not provided; summarization skipped)''
               @ [10, 10] @ ustr ''Sunny''), [])"
proof -
  have no_token: "\<not> token_truthy (token_or_environ example_runtime (Some []))"
    by (simp add: token_or_environ_def example_runtime_def)
  have short: "take 2000 (ustr ''Sunny'') = ustr ''Sunny''"
    by (simp add: ustr_def)
  show ?thesis
    using no_token hf_no_credential_C5 [OF no_token, of "ustr ''Sunny''" HF_MODEL] short
    by simp
qed

text \<open>The shorter prefix \<open>(token not provided; summarization skipped)\<close> is not what the
  function returns.\<close>

theorem hf_no_credential_C5_counterexample:
  "fst (hf_summarize example_runtime (ustr ''abc'') HF_MODEL None)
     \<noteq> Inr (ustr ''(token not provided; summarization skipped)'' @ take 2000 (ustr ''abc''))"
  by code_simp

subsection \<open>The shapes of the summarization response\<close>




subsection \<open>Daily series of unequal lengths\<close>

text \<open>
  C4. When the five daily series are lists, possibly of unequal lengths, and the
  formatter returns, it has rendered exactly the indices present in all five series:
  the number of day lines is the length of the shortest series, day line \<open>i\<close> is the
  rendering of the \<open>i\<close>-th entries, and the text is the lines joined by line feeds. With
  5 dates and 3 maximum temperatures there are exactly 3 day lines.
\<close>

theorem unequal_series_C4:
  assumes "daily_series forecast = Inr (JList ds, JList his, JList los, JList ps, JList wcs)"
      and "forecast_lines rt place forecast = Inr lines"
  shows "length lines
           = 1 + min (length ds) (min (length his) (min (length los)
                   (min (length ps) (length wcs))))
       \<and> (\<forall>i. i < min (length ds) (min (length his) (min (length los)
                     (min (length ps) (length wcs))))
              \<longrightarrow> format_day rt (ds ! i) (his ! i) (los ! i) (ps ! i) (wcs ! i)
                    = Inr (lines ! Suc i))
       \<and> format_forecast_text rt place forecast = Inr (py_join [10] lines)"
proof -
  let ?days = "zip ds (zip his (zip los (zip ps wcs)))"
  let ?n = "min (length ds) (min (length his) (min (length los)
              (min (length ps) (length wcs))))"
  have zipped: "zip_series (JList ds) (JList his) (JList los) (JList ps) (JList wcs) = Inr ?days"
    by (simp add: zip_series_def then_do_def)
  from assms zipped obtain ls where
    ls: "format_days rt ?days = Inr ls"
    and lines: "lines = (ustr ''Weather forecast for '' @ place @ ustr '':'' @ [10]) # ls"
    by (auto simp: forecast_lines_def then_do_def split: sum.splits)
  have n: "length ?days = ?n"
    by simp
  from format_days_Inr [OF ls] have
    len: "length ls = ?n"
    and each: "\<And>i. i < ?n \<Longrightarrow>
      (case ?days ! i of (d, hi, lo, p, wc) \<Rightarrow> format_day rt d hi lo p wc) = Inr (ls ! i)"
    unfolding n by auto
  have day: "format_day rt (ds ! i) (his ! i) (los ! i) (ps ! i) (wcs ! i) = Inr (lines ! Suc i)"
    if "i < ?n" for i
  proof -
    from that have "?days ! i = (ds ! i, his ! i, los ! i, ps ! i, wcs ! i)"
      by simp
    with each [OF that] lines show ?thesis
      by simp
  qed
  have joined: "format_forecast_text rt place forecast = Inr (py_join [10] lines)"
    using assms(2) by (simp add: format_forecast_text_def then_do_def)
  from len lines day joined show ?thesis
    by simp
qed

theorem unequal_series_C4_witness:
  "\<exists>lines.
     daily_series example_forecast
       = Inr (JList [JStr (ustr ''2024-01-01''), JStr (ustr ''2024-01-02''),
                     JStr (ustr ''2024-01-03''), JStr (ustr ''2024-01-04''),
                     JStr (ustr ''2024-01-05'')],
              JList [JFloat (Finite (219 / 10)), JInt 18, JFloat (Finite (1 / 2))],
              JList [JFloat (Finite (73 / 10)), JFloat (Finite (- (1 / 2))),
                     JFloat (Finite (- (17 / 10))), JInt 3, JInt 4],
              JList [JInt 0, JFloat (Finite (5 / 2)), JNull, JInt 1, JInt 2],
              JList [JInt 0, JInt 61, JInt 200, JInt 3, JInt 95])
     \<and> forecast_lines example_runtime (ustr ''Lahore, Pakistan'') example_forecast = Inr lines
     \<and> length lines = 1 + 3
     \<and> format_day example_runtime (JStr (ustr ''2024-01-03'')) (JFloat (Finite (1 / 2)))
         (JFloat (Finite (- (17 / 10)))) JNull (JInt 200) = Inr (lines ! 3)"
proof -
  have series: "daily_series example_forecast
       = Inr (JList [JStr (ustr ''2024-01-01''), JStr (ustr ''2024-01-02''),
                     JStr (ustr ''2024-01-03''), JStr (ustr ''2024-01-04''),
                     JStr (ustr ''2024-01-05'')],
              JList [JFloat (Finite (219 / 10)), JInt 18, JFloat (Finite (1 / 2))],
              JList [JFloat (Finite (73 / 10)), JFloat (Finite (- (1 / 2))),
                     JFloat (Finite (- (17 / 10))), JInt 3, JInt 4],
              JList [JInt 0, JFloat (Finite (5 / 2)), JNull, JInt 1, JInt 2],
              JList [JInt 0, JInt 61, JInt 200, JInt 3, JInt 95])"
    by code_simp
  have "\<not> isl (forecast_lines example_runtime (ustr ''Lahore, Pakistan'') example_forecast)"
    by code_simp
  then obtain lines where
    lines: "forecast_lines example_runtime (ustr ''Lahore, Pakistan'') example_forecast = Inr lines"
    by (cases "forecast_lines example_runtime (ustr ''Lahore, Pakistan'') example_forecast")
       simp_all
  from unequal_series_C4 [OF series lines]
  have len: "length lines = 1 + 3"
    and each: "\<And>i. i < 3 \<Longrightarrow>
      format_day example_runtime
        ([JStr (ustr ''2024-01-01''), JStr (ustr ''2024-01-02''), JStr (ustr ''2024-01-03''),
          JStr (ustr ''2024-01-04''), JStr (ustr ''2024-01-05'')] ! i)
        ([JFloat (Finite (219 / 10)), JInt 18, JFloat (Finite (1 / 2))] ! i)
        ([JFloat (Finite (73 / 10)), JFloat (Finite (- (1 / 2))),
          JFloat (Finite (- (17 / 10))), JInt 3, JInt 4] ! i)
        ([JInt 0, JFloat (Finite (5 / 2)), JNull, JInt 1, JInt 2] ! i)
        ([JInt 0, JInt 61, JInt 200, JInt 3, JInt 95] ! i)
      = Inr (lines ! Suc i)"
    by simp_all
  from each [of 2]
  have "format_day example_runtime (JStr (ustr ''2024-01-03'')) (JFloat (Finite (1 / 2)))
           (JFloat (Finite (- (17 / 10)))) JNull (JInt 200) = Inr (lines ! 3)"
    by (simp add: numeral_3_eq_3)
  with len have "length lines = 1 + 3
    \<and> format_day example_runtime (JStr (ustr ''2024-01-03'')) (JFloat (Finite (1 / 2)))
           (JFloat (Finite (- (17 / 10)))) JNull (JInt 200) = Inr (lines ! 3)"
    by simp
  with series lines show ?thesis
    by blast
qed

subsection \<open>Temperatures are truncated\<close>

text \<open>
  C7. For every low and high temperature that is a JSON number, the day line shows for
  each the integer with the same sign whose magnitude is the whole part of the
  value's magnitude (truncation toward zero, not rounding): 21.9 gives 21 and -0.5
  gives 0. A numeric temperature never makes the line fail.
\<close>

theorem temperature_truncation_C7:
  assumes "number_value lo = Some l"
      and "number_value hi = Some h"
      and "render_date rt d = Inr date"
  shows "(\<exists>ilo ihi.
            format_day rt d hi lo p wc
              = Inr (day_line date (weathercode_to_text wc) ilo ihi (precip_note rt p))
            \<and> \<bar>of_int ilo\<bar> \<le> \<bar>l\<bar> \<and> \<bar>l\<bar> < \<bar>of_int ilo\<bar> + 1 \<and> 0 \<le> of_int ilo * l
            \<and> \<bar>of_int ihi\<bar> \<le> \<bar>h\<bar> \<and> \<bar>h\<bar> < \<bar>of_int ihi\<bar> + 1 \<and> 0 \<le> of_int ihi * h)
         \<and> py_int rt (JFloat (Finite (219 / 10))) = Inr 21
         \<and> py_int rt (JFloat (Finite (- (1 / 2)))) = Inr 0"
proof (intro conjI)
  from py_int_number [OF assms(1), of rt] obtain ilo where
    ilo: "py_int rt lo = Inr ilo"
      "\<bar>of_int ilo\<bar> \<le> \<bar>l\<bar> \<and> \<bar>l\<bar> < \<bar>of_int ilo\<bar> + 1 \<and> 0 \<le> of_int ilo * l"
    by blast
  from py_int_number [OF assms(2), of rt] obtain ihi where
    ihi: "py_int rt hi = Inr ihi"
      "\<bar>of_int ihi\<bar> \<le> \<bar>h\<bar> \<and> \<bar>h\<bar> < \<bar>of_int ihi\<bar> + 1 \<and> 0 \<le> of_int ihi * h"
    by blast
  have "format_day rt d hi lo p wc
          = Inr (day_line date (weathercode_to_text wc) ilo ihi (precip_note rt p))"
    using assms(3) ilo(1) ihi(1) by (simp add: format_day_def then_do_def)
  with ilo(2) ihi(2)
  show "\<exists>ilo ihi.
          format_day rt d hi lo p wc
            = Inr (day_line date (weathercode_to_text wc) ilo ihi (precip_note rt p))
          \<and> \<bar>of_int ilo\<bar> \<le> \<bar>l\<bar> \<and> \<bar>l\<bar> < \<bar>of_int ilo\<bar> + 1 \<and> 0 \<le> of_int ilo * l
          \<and> \<bar>of_int ihi\<bar> \<le> \<bar>h\<bar> \<and> \<bar>h\<bar> < \<bar>of_int ihi\<bar> + 1 \<and> 0 \<le> of_int ihi * h"
    by blast
next
  have "\<lfloor>219 / 10 :: rat\<rfloor> = 21"
    by (rule floor_unique) simp_all
  then show "py_int rt (JFloat (Finite (219 / 10))) = Inr 21"
    by simp
next
  have "\<lceil>- (1 / 2) :: rat\<rceil> = 0"
    by (rule ceiling_unique) simp_all
  then show "py_int rt (JFloat (Finite (- (1 / 2)))) = Inr 0"
    by simp
qed

theorem temperature_truncation_C7_witness:
  "number_value (JFloat (Finite (- (1 / 2)))) = Some (- (1 / 2))
   \<and> number_value (JFloat (Finite (219 / 10))) = Some (219 / 10)
   \<and> render_date example_runtime (JStr (ustr ''2024-01-01'')) = Inr (ustr ''Mon 01 Jan'')
   \<and> (\<exists>ilo ihi.
         format_day example_runtime (JStr (ustr ''2024-01-01'')) (JFloat (Finite (219 / 10)))
             (JFloat (Finite (- (1 / 2)))) (JInt 0) (JInt 0)
           = Inr (day_line (ustr ''Mon 01 Jan'') (weathercode_to_text (JInt 0)) ilo ihi
                    (precip_note example_runtime (JInt 0)))
         \<and> \<bar>of_int ilo\<bar> \<le> \<bar>- (1 / 2) :: rat\<bar> \<and> \<bar>- (1 / 2) :: rat\<bar> < \<bar>of_int ilo\<bar> + 1
         \<and> \<bar>of_int ihi\<bar> \<le> \<bar>219 / 10 :: rat\<bar> \<and> \<bar>219 / 10 :: rat\<bar> < \<bar>of_int ihi\<bar> + 1)
   \<and> format_day example_runtime (JStr (ustr ''2024-01-01'')) (JFloat (Finite (219 / 10)))
         (JFloat (Finite (- (1 / 2)))) (JInt 0) (JInt 0)
       = Inr (ustr ''Mon 01 Jan: Clear sky. Temp 0'' @ [176] @ ustr ''C'' @ [8211]
              @ ustr ''21'' @ [176] @ ustr ''C, no significant rain.'')"
proof -
  have lo: "number_value (JFloat (Finite (- (1 / 2)))) = Some (- (1 / 2))"
    by simp
  have hi: "number_value (JFloat (Finite (219 / 10))) = Some (219 / 10)"
    by simp
  have date: "render_date example_runtime (JStr (ustr ''2024-01-01'')) = Inr (ustr ''Mon 01 Jan'')"
    by (simp add: render_date_def example_runtime_def example_dates_def)
  have line: "format_day example_runtime (JStr (ustr ''2024-01-01''))
                (JFloat (Finite (219 / 10))) (JFloat (Finite (- (1 / 2)))) (JInt 0) (JInt 0)
              = Inr (ustr ''Mon 01 Jan: Clear sky. Temp 0'' @ [176] @ ustr ''C'' @ [8211]
                     @ ustr ''21'' @ [176] @ ustr ''C, no significant rain.'')"
    by code_simp
  from temperature_truncation_C7 [OF lo hi date, of "JInt 0" "JInt 0"]
  have "\<exists>ilo ihi.
         format_day example_runtime (JStr (ustr ''2024-01-01'')) (JFloat (Finite (219 / 10)))
             (JFloat (Finite (- (1 / 2)))) (JInt 0) (JInt 0)
           = Inr (day_line (ustr ''Mon 01 Jan'') (weathercode_to_text (JInt 0)) ilo ihi
                    (precip_note example_runtime (JInt 0)))
         \<and> \<bar>of_int ilo\<bar> \<le> \<bar>- (1 / 2) :: rat\<bar> \<and> \<bar>- (1 / 2) :: rat\<bar> < \<bar>of_int ilo\<bar> + 1
         \<and> \<bar>of_int ihi\<bar> \<le> \<bar>219 / 10 :: rat\<bar> \<and> \<bar>219 / 10 :: rat\<bar> < \<bar>of_int ihi\<bar> + 1"
    by blast
  with lo hi date line show ?thesis
    by blast
qed

subsection \<open>The raw forecast is returned unchanged\<close>



subsection \<open>The summary text and emptiness\<close>




subsection \<open>Summarization not requested\<close>

text \<open>
  C10. In every successful run with \<open>use_hf\<close> false, the text returned is exactly the
  output of \<open>format_forecast_text\<close>, and the HTTP calls made are those of geocoding and
  of the forecast fetch, none of them to the summarization endpoint, whatever token the
  environment holds.
\<close>

theorem disabled_summary_C10:
  assumes "py_strip place \<noteq> []"
      and "geocode_place rt (py_strip place) = (Inr geo, c1)"
      and "py_truthy geo"
      and "geo_fields geo = Inr (n, c, lat, lon)"
      and "fetch_open_meteo rt lat lon days = (Inr forecast, c2)"
      and "format_forecast_text rt (py_str rt n @ ustr '', '' @ py_str rt c) forecast
             = Inr raw_text"
  shows "get_forecast_for_place rt place days False = (Inr (raw_text, forecast), c1 @ c2)
       \<and> \<not> list_ex is_hf_call (c1 @ c2)"
proof
  show "get_forecast_for_place rt place days False = (Inr (raw_text, forecast), c1 @ c2)"
    unfolding pipeline_success [OF assms(1-5)] using assms(6)
    by (simp add: summary_step_disabled)
next
  have "c1 = snd (geocode_place rt (py_strip place))"
    using assms(2) by simp
  then have c1: "c1 = [GeocodeGET (py_strip place)]"
    by (simp add: geocode_calls)
  have "c2 = snd (fetch_open_meteo rt lat lon days)"
    using assms(5) by simp
  then have c2: "\<not> list_ex is_hf_call c2"
    by (simp add: fetch_calls)
  from c1 c2 show "\<not> list_ex is_hf_call (c1 @ c2)"
    by simp
qed

theorem disabled_summary_C10_witness:
  "\<exists>raw_text.
     format_forecast_text example_runtime_with_token (ustr ''Lahore, Pakistan'')
       example_forecast = Inr raw_text
     \<and> environ_HF_API_TOKEN example_runtime_with_token = Some (ustr ''hf_example'')
     \<and> get_forecast_for_place example_runtime_with_token (ustr '' Lahore, Pakistan '') 3 False
         = (Inr (raw_text, example_forecast),
            [GeocodeGET (ustr ''Lahore, Pakistan''),
             ForecastGET (JFloat (Finite (63 / 2))) (JFloat (Finite (149 / 2))) 738886 738888])"
proof -
  obtain raw_text where fmt0:
    "format_forecast_text example_runtime_with_token (ustr ''Lahore, Pakistan'')
       example_forecast = Inr raw_text"
    using example_format_returns
    by (cases "format_forecast_text example_runtime_with_token (ustr ''Lahore, Pakistan'')
                 example_forecast") simp_all
  then have fmt:
    "format_forecast_text example_runtime_with_token
       (py_str example_runtime_with_token (JStr (ustr ''Lahore'')) @ ustr '', ''
        @ py_str example_runtime_with_token (JStr (ustr ''Pakistan'')))
       example_forecast = Inr raw_text"
    unfolding example_name .
  have tok: "environ_HF_API_TOKEN example_runtime_with_token = Some (ustr ''hf_example'')"
    by (simp add: example_runtime_with_token_def)
  from disabled_summary_C10
         [OF example_place_nonempty example_geocoding example_geo_truthy example_geo_fields
             example_fetch fmt]
  have "get_forecast_for_place example_runtime_with_token (ustr '' Lahore, Pakistan '') 3 False
         = (Inr (raw_text, example_forecast),
            [GeocodeGET (ustr ''Lahore, Pakistan''),
             ForecastGET (JFloat (Finite (63 / 2))) (JFloat (Finite (149 / 2))) 738886 738888])"
    by simp
  with fmt0 tok show ?thesis
    by blast
qed

end
